theory Spec2Isabelle
  imports Main "HOL-Library.Sublist"
begin

section \<open>Data model\<close>

text \<open>
  A JavaScript string is a sequence of UTF-16 code units and \<open>length\<close> counts code units.
  The model writes it as \<^typ>\<open>string\<close>, one \<^typ>\<open>char\<close> standing for one code unit; every
  literal of the program is ASCII.

  \<open>types/ApiRequest.ts\<close>: the record of one completed request. The field \<open>status\<close> has the
  type \<open>'success' | 'error'\<close>, a subtype of the four-valued status of the component state.
  The fields carry the prefix \<open>req_\<close> because \<open>id\<close> is a constant of HOL and \<open>url\<close>,
  \<open>response\<close> and \<open>status\<close> are also state variables of \<open>App\<close>.
\<close>

datatype req_status = ReqSuccess | ReqError

datatype status = Idle | Loading | Success | Error

fun status_of :: "req_status \<Rightarrow> status" where
  "status_of ReqSuccess = Success"
| "status_of ReqError = Error"

record ApiRequest =
  req_id :: int
  req_url :: string
  req_response :: string
  req_status :: req_status
  req_timestamp :: string

text \<open>The five \<open>useState\<close> variables of \<open>App\<close> (App.tsx, lines 10 to 14).\<close>

record app_state =
  url :: string
  response :: string
  status :: status
  history :: "ApiRequest list"
  currentRequestId :: "int option"

definition initial_state :: app_state where
  "initial_state =
     \<lparr>url = [],
      response = ''No data yet. Enter an API endpoint and click Fetch.'',
      status = Idle,
      history = [],
      currentRequestId = None\<rparr>"

section \<open>The platform\<close>

text \<open>
  The program calls four things it does not define: the constructor \<open>new URL(s)\<close>, which
  returns or throws, \<open>JSON.parse\<close>, which returns a value or throws a \<open>SyntaxError\<close> with a
  message, \<open>JSON.stringify(v, null, 2)\<close>, and \<open>fetch\<close>. The first three are pure and are
  taken as parameters; \<open>'j\<close> is the type of parsed JSON values. The outcome of \<open>fetch\<close>
  and the readings of the clock are inputs of the event that completes a request.
\<close>

record 'j platform =
  URL_new :: "string \<Rightarrow> string option"
  JSON_parse :: "string \<Rightarrow> string + 'j"
  JSON_stringify :: "'j \<Rightarrow> string"

text \<open>
  A value caught by \<open>catch (error)\<close>: an instance of \<open>Error\<close> with its message, or anything
  else.
\<close>

datatype js_thrown = ErrorInstance string | NonError

text \<open>
  A \<open>Response\<close> of the Fetch API, as far as it matters here: its HTTP status code and its
  body text. \<open>ok\<close> is the platform's flag for a status from 200 to 299. The promise of
  \<open>fetch\<close> is rejected with a thrown value or resolved with a response, whatever its status.
\<close>

record http_response =
  resp_status :: nat
  resp_body :: string

definition resp_ok :: "http_response \<Rightarrow> bool" where
  "resp_ok res = (200 \<le> resp_status res \<and> resp_status res \<le> 299)"

datatype fetch_outcome = Rejected js_thrown | Resolved http_response

section \<open>utils/helpers.ts\<close>

definition isValidUrl :: "'j platform \<Rightarrow> string \<Rightarrow> bool" where
  "isValidUrl P urlString = (case URL_new P urlString of Some _ \<Rightarrow> True | None \<Rightarrow> False)"

definition formatResponse :: "'j platform \<Rightarrow> string \<Rightarrow> status \<Rightarrow> string" where
  "formatResponse P resp st =
     (if st = Success \<or> st = Error then
        (case JSON_parse P resp of
           Inr parsed \<Rightarrow> JSON_stringify P parsed
         | Inl _ \<Rightarrow> resp)
      else resp)"

text \<open>
  \<open>String.prototype.substring(start, end)\<close> on integer arguments: both are clamped to
  \<open>[0, length]\<close> and swapped when out of order.
\<close>

definition substring :: "string \<Rightarrow> int \<Rightarrow> int \<Rightarrow> string" where
  "substring s start end =
     (let len = int (length s);
          finalStart = min (max start 0) len;
          finalEnd = min (max end 0) len;
          from = min finalStart finalEnd;
          to = max finalStart finalEnd
      in take (nat (to - from)) (drop (nat from) s))"

text \<open>
  \<open>truncateUrl(url, maxLength = 40)\<close>. The budget is a \<open>number\<close> in the source; the model
  takes the integers, negative ones included.
\<close>

definition truncateUrl :: "string \<Rightarrow> int \<Rightarrow> string" where
  "truncateUrl u maxLength =
     (if int (length u) \<le> maxLength then u
      else substring u 0 (maxLength - 3) @ ''...'')"

definition truncateUrl_default :: "string \<Rightarrow> string" where
  "truncateUrl_default u = truncateUrl u 40"

text \<open>\<open>HistoryItem\<close> shows \<open>truncateUrl(request.url, 35)\<close>.\<close>

definition history_url :: "ApiRequest \<Rightarrow> string" where
  "history_url request = truncateUrl (req_url request) 35"

text \<open>
  \<open>HistoryPanel\<close> gives each item the key \<open>request.id\<close> and marks it as the active one with
  \<open>request.id === currentRequestId\<close> (HistoryPanel.tsx, lines 33 and 36).
\<close>

definition isActive :: "int option \<Rightarrow> ApiRequest \<Rightarrow> bool" where
  "isActive cur request = (Some (req_id request) = cur)"

section \<open>App.tsx\<close>

text \<open>
  \<open>handleFetch\<close> is an \<open>async\<close> function. It runs up to \<open>await fetch(url)\<close> at once
  (\<open>handleFetch_start\<close>), and the rest when the promise settles (\<open>handleFetch_resume\<close>).
  The rest uses the \<open>url\<close> and \<open>history\<close> of the render that called the function, not
  the state at the time the promise settles: they are kept in a \<open>closure\<close>. No state is read
  or written between \<open>await fetch(url)\<close> and \<open>await res.json()\<close>, so the two waits are one
  step here.
\<close>

record closure =
  c_url :: string
  c_history :: "ApiRequest list"

definition handleFetch_start :: "'j platform \<Rightarrow> app_state \<Rightarrow> app_state \<times> closure option" where
  "handleFetch_start P s =
     (if url s = [] \<or> \<not> isValidUrl P (url s) then (s, None)
      else (s\<lparr>status := Loading, response := ''Fetching data...''\<rparr>,
            Some \<lparr>c_url = url s, c_history = history s\<rparr>))"

text \<open>
  Lines 23 to 25, the part of the \<open>try\<close> block that can throw: the text to show, or the
  value thrown.
\<close>

definition try_fetch :: "'j platform \<Rightarrow> fetch_outcome \<Rightarrow> js_thrown + string" where
  "try_fetch P outcome =
     (case outcome of
        Rejected e \<Rightarrow> Inl e
      | Resolved res \<Rightarrow>
          (case JSON_parse P (resp_body res) of
             Inl msg \<Rightarrow> Inl (ErrorInstance msg)
           | Inr data \<Rightarrow> Inr (JSON_stringify P data)))"

definition error_text :: "js_thrown \<Rightarrow> string" where
  "error_text e =
     ''Error: '' @ (case e of ErrorInstance message \<Rightarrow> message | NonError \<Rightarrow> ''Unknown error'')"

text \<open>
  \<open>now\<close> is the value of \<open>Date.now()\<close> and \<open>ts\<close> that of
  \<open>new Date().toLocaleTimeString()\<close> when the record is built; \<open>s\<close> is the state at that
  moment.
\<close>

definition handleFetch_resume ::
  "'j platform \<Rightarrow> closure \<Rightarrow> fetch_outcome \<Rightarrow> int \<Rightarrow> string \<Rightarrow> app_state \<Rightarrow> app_state" where
  "handleFetch_resume P c outcome now ts s =
     (case try_fetch P outcome of
        Inr responseText \<Rightarrow>
          (let newRequest =
                 \<lparr>req_id = now, req_url = c_url c, req_response = responseText,
                  req_status = ReqSuccess, req_timestamp = ts\<rparr>
           in s\<lparr>response := responseText, status := Success,
                history := c_history c @ [newRequest],
                currentRequestId := Some (req_id newRequest)\<rparr>)
      | Inl e \<Rightarrow>
          (let errorText = error_text e;
               newRequest =
                 \<lparr>req_id = now, req_url = c_url c, req_response = errorText,
                  req_status = ReqError, req_timestamp = ts\<rparr>
           in s\<lparr>response := errorText, status := Error,
                history := c_history c @ [newRequest],
                currentRequestId := Some (req_id newRequest)\<rparr>))"

text \<open>A submission that nothing interrupts: the start, then the rest on the state it left.\<close>

definition handleFetch ::
  "'j platform \<Rightarrow> fetch_outcome \<Rightarrow> int \<Rightarrow> string \<Rightarrow> app_state \<Rightarrow> app_state" where
  "handleFetch P outcome now ts s =
     (case handleFetch_start P s of
        (s1, None) \<Rightarrow> s1
      | (s1, Some c) \<Rightarrow> handleFetch_resume P c outcome now ts s1)"

definition handleSelectRequest :: "ApiRequest \<Rightarrow> app_state \<Rightarrow> app_state" where
  "handleSelectRequest request s =
     s\<lparr>url := req_url request,
       response := req_response request,
       status := status_of (req_status request),
       currentRequestId := Some (req_id request)\<rparr>"

definition handleClearHistory :: "app_state \<Rightarrow> app_state" where
  "handleClearHistory s =
     s\<lparr>history := [],
       currentRequestId := None,
       response := ''History cleared. Enter an API endpoint and click Fetch.'',
       status := Idle\<rparr>"

section \<open>The component as an event system\<close>

text \<open>
  The browser runs one handler at a time. Between the start of a \<open>handleFetch\<close> and the
  settling of its promise, other handlers run. The system state holds the component state,
  the calls in flight, each with the closure of the \<open>handleFetch\<close> that issued it, and, as
  a ghost variable that the program does not have, the list \<open>created\<close> of all the records
  ever built, in the order they were built.
\<close>

record sys =
  app :: app_state
  in_flight :: "closure list"
  created :: "ApiRequest list"

definition initial_sys :: sys where
  "initial_sys = \<lparr>app = initial_state, in_flight = [], created = []\<rparr>"

text \<open>
  The events:
  \<^item> \<open>Edit v\<close>: the user changes the input field, \<open>onChange = setUrl\<close>;
  \<^item> \<open>Submit\<close>: a click on the button or the Enter key, \<open>onSubmit = handleFetch\<close>;
  \<^item> \<open>Settle i outcome now ts\<close>: the promise of the \<open>i\<close>-th call in flight settles with
    \<open>outcome\<close>, and then the clock reads \<open>now\<close> and \<open>ts\<close>;
  \<^item> \<open>Select i\<close>: a click on the \<open>i\<close>-th item of the history panel;
  \<^item> \<open>Clear\<close>: a click on the Clear button.

  \<open>InputField\<close> gets \<open>disabled = (status === 'loading')\<close> (App.tsx, line 83). When it is
  set, the input field and the button are disabled and the Enter key is ignored. The Enter
  key calls \<open>onSubmit\<close> whenever \<open>disabled\<close> is not set, so \<open>Submit\<close> is possible exactly then;
  \<open>handleFetch\<close> itself checks the url. The history items are clickable in every state, and
  the Clear button exists when the history is not empty (HistoryPanel.tsx, lines 13 to 29).
\<close>

datatype event =
  Edit string
  | Submit
  | Settle nat fetch_outcome int string
  | Select nat
  | Clear

definition submit_disabled :: "app_state \<Rightarrow> bool" where
  "submit_disabled s = (status s = Loading)"

fun dispatch :: "'j platform \<Rightarrow> event \<Rightarrow> sys \<Rightarrow> sys option" where
  "dispatch P (Edit v) \<sigma> =
     (if submit_disabled (app \<sigma>) then None
      else Some (\<sigma>\<lparr>app := (app \<sigma>)\<lparr>url := v\<rparr>\<rparr>))"
| "dispatch P Submit \<sigma> =
     (if submit_disabled (app \<sigma>) then None
      else
        (case handleFetch_start P (app \<sigma>) of
           (s1, None) \<Rightarrow> Some (\<sigma>\<lparr>app := s1\<rparr>)
         | (s1, Some c) \<Rightarrow> Some (\<sigma>\<lparr>app := s1, in_flight := in_flight \<sigma> @ [c]\<rparr>)))"
| "dispatch P (Settle i outcome now ts) \<sigma> =
     (if i < length (in_flight \<sigma>) then
        (let s' = handleFetch_resume P (in_flight \<sigma> ! i) outcome now ts (app \<sigma>)
         in Some \<lparr>app = s',
                  in_flight = take i (in_flight \<sigma>) @ drop (Suc i) (in_flight \<sigma>),
                  created = created \<sigma> @ [last (history s')]\<rparr>)
      else None)"
| "dispatch P (Select i) \<sigma> =
     (if i < length (history (app \<sigma>)) then
        Some (\<sigma>\<lparr>app := handleSelectRequest (history (app \<sigma>) ! i) (app \<sigma>)\<rparr>)
      else None)"
| "dispatch P Clear \<sigma> =
     (if history (app \<sigma>) = [] then None
      else Some (\<sigma>\<lparr>app := handleClearHistory (app \<sigma>)\<rparr>))"

fun run :: "'j platform \<Rightarrow> event list \<Rightarrow> sys \<Rightarrow> sys option" where
  "run P [] \<sigma> = Some \<sigma>"
| "run P (e # es) \<sigma> =
     (case dispatch P e \<sigma> of
        None \<Rightarrow> None
      | Some \<sigma>' \<Rightarrow> run P es \<sigma>')"

text \<open>The readings of \<open>Date.now()\<close> along a list of events, in order.\<close>

fun settle_time :: "event \<Rightarrow> int list" where
  "settle_time (Settle i outcome now ts) = [now]"
| "settle_time _ = []"

definition settle_times :: "event list \<Rightarrow> int list" where
  "settle_times es = concat (map settle_time es)"

definition history_ids :: "sys \<Rightarrow> int list" where
  "history_ids \<sigma> = map req_id (history (app \<sigma>))"

section \<open>A reference platform for concrete inputs\<close>

text \<open>
  The theorems that carry a platform \<open>P\<close> hold for every platform. To run the program on
  concrete inputs, this section gives one platform. It is a stand-in, not a model of the
  library: it serves only on the inputs listed in the next section, on which it gives what
  the library gives, and nothing is proved of it in general.
  \<^item> \<open>ref_parse\<close> reads a part of JSON: integer numbers only (a fraction or an exponent is
    refused, where \<open>JSON.parse\<close> reads a double), code units below 256 (a \<open>\u\<close> escape above
    \<open>00ff\<close> is refused), and an object keeps its members as written (\<open>JSON.parse\<close> keeps the
    last of a repeated key and puts integer keys first). Its message for a refused text is
    a fixed one.
  \<^item> \<open>ref_stringify\<close> lays a value out as \<open>JSON.stringify(v, null, 2)\<close> does (ECMA-262,
    SerializeJSONProperty with the gap of two spaces).
  \<^item> \<open>ref_URL_new\<close> is a reduced test for absolute URLs: a scheme, a colon, and for \<open>http\<close>
    and \<open>https\<close> something after the slashes. It does not strip spaces around the url and
    does not check the characters of the host, as \<open>new URL\<close> does.
\<close>

datatype json =
  JNull | JBool bool | JNumber int | JString string
  | JArray "json list" | JObject "(string \<times> json) list"

definition hex_digit :: "nat \<Rightarrow> char" where
  "hex_digit n = ''0123456789abcdef'' ! (n mod 16)"

definition quote_char :: "char \<Rightarrow> string" where
  "quote_char c =
     (if c = CHR 0x22 then [CHR 0x5C, CHR 0x22]
      else if c = CHR 0x5C then [CHR 0x5C, CHR 0x5C]
      else if c = CHR 0x08 then [CHR 0x5C, CHR ''b'']
      else if c = CHR 0x0C then [CHR 0x5C, CHR ''f'']
      else if c = CHR 0x0A then [CHR 0x5C, CHR ''n'']
      else if c = CHR 0x0D then [CHR 0x5C, CHR ''r'']
      else if c = CHR 0x09 then [CHR 0x5C, CHR ''t'']
      else if (of_char c :: nat) < 32 then
        [CHR 0x5C, CHR ''u'', CHR ''0'', CHR ''0'', hex_digit (of_char c div 16), hex_digit (of_char c)]
      else [c])"

definition quote :: "string \<Rightarrow> string" where
  "quote s = CHR 0x22 # concat (map quote_char s) @ [CHR 0x22]"

fun digits :: "nat \<Rightarrow> string" where
  "digits n = (if n < 10 then [hex_digit n] else digits (n div 10) @ [hex_digit (n mod 10)])"

declare digits.simps [simp del]

definition show_int :: "int \<Rightarrow> string" where
  "show_int i = (if i < 0 then CHR ''-'' # digits (nat (- i)) else digits (nat i))"

fun ser :: "string \<Rightarrow> json \<Rightarrow> string"
  and ser_elements :: "string \<Rightarrow> json list \<Rightarrow> string"
  and ser_members :: "string \<Rightarrow> (string \<times> json) list \<Rightarrow> string" where
  "ser ind JNull = ''null''"
| "ser ind (JBool b) = (if b then ''true'' else ''false'')"
| "ser ind (JNumber i) = show_int i"
| "ser ind (JString s) = quote s"
| "ser ind (JArray vs) =
     (if vs = [] then ''[]''
      else ''['' @ [CHR 0x0A] @ (ind @ ''  '') @ ser_elements (ind @ ''  '') vs
           @ [CHR 0x0A] @ ind @ '']'')"
| "ser ind (JObject ms) =
     (if ms = [] then ''{}''
      else ''{'' @ [CHR 0x0A] @ (ind @ ''  '') @ ser_members (ind @ ''  '') ms
           @ [CHR 0x0A] @ ind @ ''}'')"
| "ser_elements ind [] = []"
| "ser_elements ind [v] = ser ind v"
| "ser_elements ind (v # w # vs) = ser ind v @ '','' @ [CHR 0x0A] @ ind @ ser_elements ind (w # vs)"
| "ser_members ind [] = []"
| "ser_members ind [(k, v)] = quote k @ '': '' @ ser ind v"
| "ser_members ind ((k, v) # m # ms) =
     quote k @ '': '' @ ser ind v @ '','' @ [CHR 0x0A] @ ind @ ser_members ind (m # ms)"


definition is_ws :: "char \<Rightarrow> bool" where
  "is_ws c = (c = CHR 0x20 \<or> c = CHR 0x0A \<or> c = CHR 0x0D \<or> c = CHR 0x09)"

definition skip_ws :: "string \<Rightarrow> string" where
  "skip_ws = dropWhile is_ws"

definition is_digit :: "char \<Rightarrow> bool" where
  "is_digit c = (48 \<le> (of_char c :: nat) \<and> (of_char c :: nat) \<le> 57)"

definition hex_value :: "char \<Rightarrow> nat option" where
  "hex_value c =
     (let k = (of_char c :: nat)
      in if 48 \<le> k \<and> k \<le> 57 then Some (k - 48)
         else if 97 \<le> k \<and> k \<le> 102 then Some (k - 87)
         else if 65 \<le> k \<and> k \<le> 70 then Some (k - 55)
         else None)"

definition unescape :: "char \<Rightarrow> char option" where
  "unescape e =
     (if e = CHR 0x22 \<or> e = CHR 0x5C \<or> e = CHR ''/'' then Some e
      else if e = CHR ''b'' then Some (CHR 0x08)
      else if e = CHR ''f'' then Some (CHR 0x0C)
      else if e = CHR ''n'' then Some (CHR 0x0A)
      else if e = CHR ''r'' then Some (CHR 0x0D)
      else if e = CHR ''t'' then Some (CHR 0x09)
      else None)"

definition unicode_escape :: "string \<Rightarrow> char option" where
  "unicode_escape hs =
     (case map hex_value hs of
        [Some a, Some b, Some c, Some d] \<Rightarrow>
          (if a = 0 \<and> b = 0 then Some (char_of (16 * c + d)) else None)
      | _ \<Rightarrow> None)"

fun parse_chars :: "string \<Rightarrow> string \<Rightarrow> (string \<times> string) option" where
  "parse_chars acc [] = None"
| "parse_chars acc (c # cs) =
     (if c = CHR 0x22 then Some (acc, cs)
      else if c = CHR 0x5C then
        (case cs of
           [] \<Rightarrow> None
         | e # cs' \<Rightarrow>
             (if e = CHR ''u'' then
                (case unicode_escape (take 4 cs') of
                   None \<Rightarrow> None
                 | Some x \<Rightarrow> parse_chars (acc @ [x]) (drop 4 cs'))
              else
                (case unescape e of
                   None \<Rightarrow> None
                 | Some x \<Rightarrow> parse_chars (acc @ [x]) cs')))
      else if (of_char c :: nat) < 32 then None
      else parse_chars (acc @ [c]) cs)"

definition digits_value :: "string \<Rightarrow> nat" where
  "digits_value ds = foldl (\<lambda>n c. 10 * n + (of_char c - 48)) 0 ds"

definition parse_nat :: "string \<Rightarrow> (nat \<times> string) option" where
  "parse_nat cs =
     (let ds = takeWhile is_digit cs; r = dropWhile is_digit cs
      in if ds = [] \<or> (length ds > 1 \<and> hd ds = CHR ''0'') then None
         else if r \<noteq> [] \<and> (hd r = CHR ''.'' \<or> hd r = CHR ''e'' \<or> hd r = CHR ''E'') then None
         else Some (digits_value ds, r))"

definition strip_prefix :: "string \<Rightarrow> string \<Rightarrow> string option" where
  "strip_prefix p cs = (if take (length p) cs = p then Some (drop (length p) cs) else None)"

fun parse_value :: "nat \<Rightarrow> string \<Rightarrow> (json \<times> string) option"
  and parse_elements :: "nat \<Rightarrow> json list \<Rightarrow> string \<Rightarrow> (json list \<times> string) option"
  and parse_members ::
    "nat \<Rightarrow> (string \<times> json) list \<Rightarrow> string \<Rightarrow> ((string \<times> json) list \<times> string) option" where
  "parse_value 0 cs = None"
| "parse_value (Suc n) cs =
     (case skip_ws cs of
        [] \<Rightarrow> None
      | c # r \<Rightarrow>
          if c = CHR ''n'' then map_option (Pair JNull) (strip_prefix ''ull'' r)
          else if c = CHR ''t'' then map_option (Pair (JBool True)) (strip_prefix ''rue'' r)
          else if c = CHR ''f'' then map_option (Pair (JBool False)) (strip_prefix ''alse'' r)
          else if c = CHR 0x22 then map_option (\<lambda>(s, r'). (JString s, r')) (parse_chars [] r)
          else if c = CHR ''['' then
            (case skip_ws r of
               [] \<Rightarrow> None
             | d # r' \<Rightarrow>
                 if d = CHR '']'' then Some (JArray [], r')
                 else map_option (\<lambda>(vs, r''). (JArray vs, r'')) (parse_elements n [] r))
          else if c = CHR ''{'' then
            (case skip_ws r of
               [] \<Rightarrow> None
             | d # r' \<Rightarrow>
                 if d = CHR ''}'' then Some (JObject [], r')
                 else map_option (\<lambda>(ms, r''). (JObject ms, r'')) (parse_members n [] r))
          else if c = CHR ''-'' then map_option (\<lambda>(k, r'). (JNumber (- int k), r')) (parse_nat r)
          else map_option (\<lambda>(k, r'). (JNumber (int k), r')) (parse_nat (c # r)))"
| "parse_elements 0 acc cs = None"
| "parse_elements (Suc n) acc cs =
     (case parse_value n cs of
        None \<Rightarrow> None
      | Some (v, r) \<Rightarrow>
          (case skip_ws r of
             [] \<Rightarrow> None
           | d # r' \<Rightarrow>
               if d = CHR '','' then parse_elements n (acc @ [v]) r'
               else if d = CHR '']'' then Some (acc @ [v], r')
               else None))"
| "parse_members 0 acc cs = None"
| "parse_members (Suc n) acc cs =
     (case skip_ws cs of
        [] \<Rightarrow> None
      | q # r \<Rightarrow>
          if q \<noteq> CHR 0x22 then None
          else
            (case parse_chars [] r of
               None \<Rightarrow> None
             | Some (k, r1) \<Rightarrow>
                 (case skip_ws r1 of
                    [] \<Rightarrow> None
                  | col # r2 \<Rightarrow>
                      if col \<noteq> CHR '':'' then None
                      else
                        (case parse_value n r2 of
                           None \<Rightarrow> None
                         | Some (v, r3) \<Rightarrow>
                             (case skip_ws r3 of
                                [] \<Rightarrow> None
                              | d # r4 \<Rightarrow>
                                  if d = CHR '','' then parse_members n (acc @ [(k, v)]) r4
                                  else if d = CHR ''}'' then Some (acc @ [(k, v)], r4)
                                  else None)))))"

definition ref_parse :: "string \<Rightarrow> string + json" where
  "ref_parse s =
     (case parse_value (2 * length s + 2) s of
        None \<Rightarrow> Inl ''Unexpected token or end of JSON input''
      | Some (v, r) \<Rightarrow>
          if skip_ws r = [] then Inr v
          else Inl ''Unexpected non-whitespace character after JSON'')"

definition ref_stringify :: "json \<Rightarrow> string" where
  "ref_stringify v = ser [] v"

definition is_alpha :: "char \<Rightarrow> bool" where
  "is_alpha c =
     (let k = (of_char c :: nat) in (65 \<le> k \<and> k \<le> 90) \<or> (97 \<le> k \<and> k \<le> 122))"

definition is_scheme_char :: "char \<Rightarrow> bool" where
  "is_scheme_char c =
     (is_alpha c \<or> is_digit c \<or> c = CHR ''+'' \<or> c = CHR ''-'' \<or> c = CHR ''.'')"

definition ref_URL_new :: "string \<Rightarrow> string option" where
  "ref_URL_new s =
     (let scheme = takeWhile is_scheme_char s;
          rest = dropWhile is_scheme_char s
      in if scheme = [] \<or> \<not> is_alpha (hd scheme) \<or> rest = [] \<or> hd rest \<noteq> CHR '':'' then None
         else if (scheme = ''http'' \<or> scheme = ''https'')
                 \<and> dropWhile (\<lambda>c. c = CHR ''/'') (tl rest) = [] then None
         else Some s)"

definition ref_platform :: "json platform" where
  "ref_platform =
     \<lparr>URL_new = ref_URL_new, JSON_parse = ref_parse, JSON_stringify = ref_stringify\<rparr>"

section \<open>Concrete inputs\<close>

text \<open>
  The inputs on which the theorems are run: a url that parses, one that does not, a state
  in which the user has typed each of them, and three outcomes of \<open>fetch\<close>.
\<close>

definition ok_url :: string where
  "ok_url = ''https://example.test/ok''"

definition bad_url :: string where
  "bad_url = ''not a url''"

definition typed_state :: app_state where
  "typed_state = initial_state\<lparr>url := ok_url\<rparr>"

definition mistyped_state :: app_state where
  "mistyped_state = initial_state\<lparr>url := bad_url\<rparr>"

definition quote_mark :: string where
  "quote_mark = [CHR 0x22]"

definition ok_response :: http_response where
  "ok_response =
     \<lparr>resp_status = 200,
      resp_body = ''{'' @ quote_mark @ ''a'' @ quote_mark @ '':1}''\<rparr>"

definition not_found_response :: http_response where
  "not_found_response =
     \<lparr>resp_status = 404,
      resp_body = ''{'' @ quote_mark @ ''error'' @ quote_mark @ '':''
                  @ quote_mark @ ''not found'' @ quote_mark @ ''}''\<rparr>"

definition html_response :: http_response where
  "html_response = \<lparr>resp_status = 500, resp_body = ''<html>Internal Server Error</html>''\<rparr>"

definition timeout_rejection :: fetch_outcome where
  "timeout_rejection = Rejected (ErrorInstance ''timeout'')"

definition other_url :: string where
  "other_url = ''https://example.test/other''"

definition timeout_record :: ApiRequest where
  "timeout_record =
     \<lparr>req_id = 1000, req_url = ok_url, req_response = ''Error: timeout'',
      req_status = ReqError, req_timestamp = ''10:15:00''\<rparr>"

text \<open>
  The state after a first request that failed and a second one that is still in flight.
\<close>

definition busy_events :: "event list" where
  "busy_events =
     [Edit ok_url, Submit, Settle 0 timeout_rejection 1000 ''10:15:00'', Edit other_url, Submit]"

definition busy_sys :: sys where
  "busy_sys =
     \<lparr>app = \<lparr>url = other_url, response = ''Fetching data...'', status = Loading,
              history = [timeout_record], currentRequestId = Some 1000\<rparr>,
      in_flight = [\<lparr>c_url = other_url, c_history = [timeout_record]\<rparr>],
      created = [timeout_record]\<rparr>"

text \<open>
  A click on a history item while a request is in flight, then a second submission; and the
  same followed by the settling of both calls.
\<close>

definition race_events :: "event list" where
  "race_events = busy_events @ [Select 0, Submit]"

definition race_settled_events :: "event list" where
  "race_settled_events =
     race_events @ [Settle 0 (Resolved ok_response) 2000 ''10:15:02'',
                    Settle 0 (Resolved ok_response) 3000 ''10:15:03'']"

text \<open>
  A first request that succeeded, a second submission, and a click on Clear while the second
  call is in flight.
\<close>

definition cleared_events :: "event list" where
  "cleared_events =
     [Edit ok_url, Submit, Settle 0 (Resolved ok_response) 1000 ''10:15:00'', Submit, Clear]"

text \<open>Two requests, one after the other, that settle at the same reading of the clock.\<close>

definition same_tick_events :: "event list" where
  "same_tick_events =
     [Edit ok_url, Submit, Settle 0 (Resolved ok_response) 1000 ''10:15:00'',
      Submit, Settle 0 (Resolved ok_response) 1000 ''10:15:00'']"

section \<open>Invariant of the history\<close>

text \<open>
  The history, and the history kept by each call in flight, is the list of the records
  ever built with some of them left out.
\<close>

definition history_inv :: "sys \<Rightarrow> bool" where
  "history_inv \<sigma> =
     (subseq (history (app \<sigma>)) (created \<sigma>)
      \<and> list_all (\<lambda>c. subseq (c_history c) (created \<sigma>)) (in_flight \<sigma>))"

section \<open>Truncated urls\<close>

lemma substring_prefix: "substring u 0 k = take (nat k) u"
  by (auto simp: substring_def Let_def min_def max_def)

text \<open>
  C9, as amended. For every url \<open>u\<close> and every integer budget \<open>m\<close>: when \<open>u\<close> fits within
  \<open>m\<close>, \<open>truncateUrl\<close> returns \<open>u\<close>; otherwise it returns the first \<open>m - 3\<close> code units of
  \<open>u\<close> (none when \<open>m < 3\<close>), a prefix of \<open>u\<close>, followed by the three-character marker
  \<open>...\<close>. When the budget is at least 3, the result is never longer than the budget.
  \<open>HistoryItem\<close> calls it with 35 and the default is 40.
\<close>

theorem truncateUrl_budget:
  "(int (length u) \<le> m \<longrightarrow> truncateUrl u m = u)
   \<and> (m < int (length u) \<longrightarrow>
        truncateUrl u m = take (nat (m - 3)) u @ ''...'' \<and> prefix (take (nat (m - 3)) u) u)
   \<and> (3 \<le> m \<longrightarrow> int (length (truncateUrl u m)) \<le> m)"
  by (auto simp: truncateUrl_def substring_prefix take_is_prefix)

theorem truncateUrl_budget_witness:
  "(3::int) \<le> 35 \<and> 35 < int (length ''https://api.github.com/users/github/repos'')
   \<and> truncateUrl ''https://api.github.com/users/github/repos'' 35
       = ''https://api.github.com/users/git...''
   \<and> int (length (truncateUrl ''https://api.github.com/users/github/repos'' 35)) \<le> 35
   \<and> truncateUrl ''https://example.test/ok'' 35 = ''https://example.test/ok''"
  using truncateUrl_budget [of "''https://api.github.com/users/github/repos''" 35]
    truncateUrl_budget [of "''https://example.test/ok''" 35]
  by simp

text \<open>
  C9 as stated fails for a budget below 3: a url of six code units and the budget 2 give
  the marker alone, three code units.
\<close>

theorem truncateUrl_small_budget_counterexample:
  "truncateUrl ''abcdef'' 2 = ''...'' \<and> \<not> int (length (truncateUrl ''abcdef'' 2)) \<le> 2"
  by (simp add: truncateUrl_def substring_def)

section \<open>Submissions\<close>

lemma handleFetch_start_Some:
  "handleFetch_start P s = (s1, Some c) \<Longrightarrow>
     c_url c = url s \<and> c_history c = history s
     \<and> s1 = s\<lparr>status := Loading, response := ''Fetching data...''\<rparr>
     \<and> url s \<noteq> [] \<and> isValidUrl P (url s)"
  by (auto simp: handleFetch_start_def split: if_splits)

lemma ok_url_valid: "isValidUrl ref_platform ok_url"
  by code_simp

lemma typed_start:
  "handleFetch_start ref_platform typed_state
     = (typed_state\<lparr>status := Loading, response := ''Fetching data...''\<rparr>,
        Some \<lparr>c_url = ok_url, c_history = []\<rparr>)"
  using ok_url_valid
  by (simp add: handleFetch_start_def typed_state_def initial_state_def ok_url_def)

lemma ok_response_parses:
  "JSON_parse ref_platform (resp_body ok_response) = Inr (JObject [(''a'', JNumber 1)])"
  by code_simp

text \<open>
  What the rest of \<open>handleFetch\<close> does when the call resolves with a body that parses as
  JSON to \<open>data\<close>: on whatever state \<open>s'\<close> the component is in by then, it writes as
  history the history of the state \<open>s\<close> of the submission with one record appended, not the
  history of \<open>s'\<close> with one record appended.
\<close>

lemma resume_success:
  assumes "handleFetch_start P s = (s1, Some c)"
    and "JSON_parse P (resp_body res) = Inr data"
  shows "let s2 = handleFetch_resume P c (Resolved res) now ts s' in
           history s2 = history s @
             [\<lparr>req_id = now, req_url = url s, req_response = JSON_stringify P data,
               req_status = ReqSuccess, req_timestamp = ts\<rparr>]
           \<and> status s2 = Success
           \<and> response s2 = JSON_stringify P data
           \<and> currentRequestId s2 = Some now
           \<and> url s2 = url s'"
  using assms handleFetch_start_Some [OF assms(1)]
  by (simp add: handleFetch_resume_def try_fetch_def Let_def)

lemma history_resume:
  "history (handleFetch_resume P c outcome now ts s')
     = c_history c @
       [\<lparr>req_id = now, req_url = c_url c,
         req_response = (case try_fetch P outcome of Inr t \<Rightarrow> t | Inl e \<Rightarrow> error_text e),
         req_status = (case try_fetch P outcome of Inr t \<Rightarrow> ReqSuccess | Inl e \<Rightarrow> ReqError),
         req_timestamp = ts\<rparr>]"
  by (simp add: handleFetch_resume_def Let_def split: sum.splits)

lemma handleFetch_started:
  "handleFetch_start P s = (s1, Some c) \<Longrightarrow>
     handleFetch P outcome now ts s = handleFetch_resume P c outcome now ts s1"
  by (simp add: handleFetch_def)

text \<open>
  The same when \<open>fetch\<close> rejects with the value \<open>e\<close>, or resolves with a body that
  \<open>JSON.parse\<close> refuses with the message \<open>msg\<close> (then \<open>e\<close> is a \<open>SyntaxError\<close> with that
  message): the text is \<open>Error: \<close> followed by the message of \<open>e\<close>, or by \<open>Unknown error\<close>
  when \<open>e\<close> is not an instance of \<open>Error\<close>.
\<close>

lemma resume_failure:
  assumes "handleFetch_start P s = (s1, Some c)"
    and "outcome = Rejected e
         \<or> (\<exists>res msg. outcome = Resolved res \<and> JSON_parse P (resp_body res) = Inl msg
               \<and> e = ErrorInstance msg)"
  shows "let message = (case e of ErrorInstance m \<Rightarrow> m | NonError \<Rightarrow> ''Unknown error'');
             s2 = handleFetch_resume P c outcome now ts s' in
           history s2 = history s @
             [\<lparr>req_id = now, req_url = url s, req_response = ''Error: '' @ message,
               req_status = ReqError, req_timestamp = ts\<rparr>]
           \<and> status s2 = Error
           \<and> response s2 = ''Error: '' @ message"
proof -
  from assms(2) have t: "try_fetch P outcome = Inl e"
    by (auto simp: try_fetch_def)
  show ?thesis
    using handleFetch_start_Some [OF assms(1)] t
    by (simp add: handleFetch_resume_def error_text_def Let_def)
qed

lemma html_response_fails:
  "JSON_parse ref_platform (resp_body html_response) = Inl ''Unexpected token or end of JSON input''"
  by code_simp

text \<open>
  C1. The claim does not hold of the program. The rest of \<open>handleFetch\<close> calls
  \<open>setHistory([...history, newRequest])\<close> with the \<open>history\<close> of the render that submitted
  (App.tsx, line 39), not with the history at the time the call settles. After a first
  request, a second submission and a click on Clear while the call is in flight, the
  history is empty; when the call then resolves with a JSON body, the history holds two
  records, the cleared one and the new one: it has grown by two, and the record appended is
  not the only one added.
\<close>

theorem stale_history_after_success:
  "map_option (\<lambda>\<sigma>. (history_ids \<sigma>, length (in_flight \<sigma>)))
     (run ref_platform cleared_events initial_sys) = Some ([], 1)
   \<and> map_option (\<lambda>\<sigma>. (history_ids \<sigma>, map req_status (history (app \<sigma>)), status (app \<sigma>)))
       (run ref_platform (cleared_events @ [Settle 0 (Resolved ok_response) 2000 ''10:15:02''])
          initial_sys)
     = Some ([1000, 2000], [ReqSuccess, ReqSuccess], Success)"
  by code_simp

text \<open>
  C2. The claim does not hold of the program, by the same line in the \<open>catch\<close> branch
  (App.tsx, line 56). After the same events, the history is empty; when the call then
  rejects with the message \<open>timeout\<close>, the history holds two records, the cleared one and the
  error record with the text \<open>Error: timeout\<close>: it has grown by two.
\<close>

theorem stale_history_after_failure:
  "map_option (\<lambda>\<sigma>. (history_ids \<sigma>, length (in_flight \<sigma>)))
     (run ref_platform cleared_events initial_sys) = Some ([], 1)
   \<and> map_option (\<lambda>\<sigma>. (history_ids \<sigma>, map req_status (history (app \<sigma>)), response (app \<sigma>)))
       (run ref_platform (cleared_events @ [Settle 0 timeout_rejection 2000 ''10:15:02''])
          initial_sys)
     = Some ([1000, 2000], [ReqSuccess, ReqError], ''Error: timeout'')"
  by code_simp

text \<open>
  C10. After every submission that settles, whatever the outcome, the history is not empty,
  its last element is the record just built (all before it is the history of the
  submission, its id is the clock reading), and \<open>currentRequestId\<close> is the id of that last
  element.
\<close>

theorem handleFetch_selects_new_record:
  assumes "handleFetch_start P s = (s1, Some c)"
  shows "let s2 = handleFetch_resume P c outcome now ts s' in
           history s2 \<noteq> []
           \<and> butlast (history s2) = history s
           \<and> req_id (last (history s2)) = now
           \<and> currentRequestId s2 = Some (req_id (last (history s2)))"
  using handleFetch_start_Some [OF assms]
  by (simp add: handleFetch_resume_def Let_def split: sum.splits)

theorem handleFetch_selects_new_record_witness:
  "handleFetch_start ref_platform typed_state
     = (typed_state\<lparr>status := Loading, response := ''Fetching data...''\<rparr>,
        Some \<lparr>c_url = ok_url, c_history = []\<rparr>)
   \<and> currentRequestId
        (handleFetch_resume ref_platform \<lparr>c_url = ok_url, c_history = []\<rparr>
           timeout_rejection 1000 ''10:15:00'' initial_state)
       = Some 1000
   \<and> map req_id
        (history (handleFetch_resume ref_platform \<lparr>c_url = ok_url, c_history = []\<rparr>
           timeout_rejection 1000 ''10:15:00'' initial_state))
       = [1000]
   \<and> currentRequestId
        (handleFetch_resume ref_platform \<lparr>c_url = ok_url, c_history = []\<rparr>
           (Resolved ok_response) 1001 ''10:15:01'' initial_state)
       = Some 1001"
proof -
  show ?thesis
    using typed_start
      handleFetch_selects_new_record [OF typed_start, of timeout_rejection 1000 "''10:15:00''" initial_state]
      handleFetch_selects_new_record [OF typed_start, of "Resolved ok_response" 1001 "''10:15:01''" initial_state]
    by (simp add: Let_def history_resume)
qed

lemma not_found_parses:
  "JSON_parse ref_platform (resp_body not_found_response)
     = Inr (JObject [(''error'', JString ''not found'')])"
  by code_simp

lemma not_found_not_ok: "\<not> resp_ok not_found_response"
  by (simp add: resp_ok_def not_found_response_def)

lemma html_not_ok: "\<not> resp_ok html_response"
  by (simp add: resp_ok_def html_response_def)

text \<open>
  C3, as amended. The program never reads the status of the response. A submission whose
  call resolves with a status that is not OK is handled as one with status 200 and the same
  body: when the body parses as JSON the status becomes \<open>Success\<close> and the record appended
  has outcome success; when it does not, the status becomes \<open>Error\<close> and the record has
  outcome error.
\<close>

theorem handleFetch_ignores_http_status:
  assumes "handleFetch_start P s = (s1, Some c)"
    and "\<not> resp_ok res"
  shows "let s2 = handleFetch_resume P c (Resolved res) now ts s' in
           (case JSON_parse P (resp_body res) of
              Inr data \<Rightarrow> status s2 = Success \<and> req_status (last (history s2)) = ReqSuccess
            | Inl msg \<Rightarrow> status s2 = Error \<and> req_status (last (history s2)) = ReqError)
           \<and> s2 = handleFetch_resume P c (Resolved (res\<lparr>resp_status := 200\<rparr>)) now ts s'"
  by (simp add: handleFetch_resume_def try_fetch_def Let_def split: sum.splits)

theorem handleFetch_ignores_http_status_witness:
  "handleFetch_start ref_platform typed_state
     = (typed_state\<lparr>status := Loading, response := ''Fetching data...''\<rparr>,
        Some \<lparr>c_url = ok_url, c_history = []\<rparr>)
   \<and> \<not> resp_ok html_response
   \<and> JSON_parse ref_platform (resp_body html_response)
       = Inl ''Unexpected token or end of JSON input''
   \<and> status (handleFetch_resume ref_platform \<lparr>c_url = ok_url, c_history = []\<rparr>
                (Resolved html_response) 1000 ''10:15:00'' initial_state) = Error
   \<and> req_status (last (history (handleFetch_resume ref_platform \<lparr>c_url = ok_url, c_history = []\<rparr>
                (Resolved html_response) 1000 ''10:15:00'' initial_state))) = ReqError"
  using typed_start html_not_ok html_response_fails
    handleFetch_ignores_http_status [OF typed_start html_not_ok, of 1000 "''10:15:00''" initial_state,
      unfolded Let_def, THEN conjunct1]
  by simp

text \<open>
  C3 as stated fails: a response with status 404 whose body is the JSON text
  \<open>{"error":"not found"}\<close> gives the status \<open>Success\<close> and a record with outcome success.
\<close>

theorem non_ok_status_counterexample:
  "\<not> resp_ok not_found_response
   \<and> status (handleFetch ref_platform (Resolved not_found_response) 1000 ''10:15:00'' typed_state)
       = Success
   \<and> map req_status
        (history (handleFetch ref_platform (Resolved not_found_response) 1000 ''10:15:00''
                    typed_state))
       = [ReqSuccess]"
  using not_found_not_ok not_found_parses
  by (simp add: handleFetch_started [OF typed_start] handleFetch_resume_def try_fetch_def Let_def)

section \<open>Rejected submissions\<close>

lemma isValidUrl_iff: "isValidUrl P u \<longleftrightarrow> URL_new P u \<noteq> None"
  by (simp add: isValidUrl_def split: option.splits)

text \<open>
  C4. When the url of the state is empty or \<open>new URL\<close> throws on it, \<open>handleFetch\<close> returns
  at once: the state is unchanged and no call is issued. So the whole submission leaves the
  state as it is whatever the network would have answered, and the event \<open>Submit\<close>, when the
  control is enabled, leaves the component state, the calls in flight and the records built
  as they are.
\<close>

theorem handleFetch_invalid_url_noop:
  assumes "url s = [] \<or> URL_new P (url s) = None"
  shows "handleFetch_start P s = (s, None)
         \<and> handleFetch P outcome now ts s = s
         \<and> dispatch P Submit \<lparr>app = s, in_flight = q, created = l\<rparr>
             = (if submit_disabled s then None else Some \<lparr>app = s, in_flight = q, created = l\<rparr>)"
proof -
  from assms have "handleFetch_start P s = (s, None)"
    by (auto simp: handleFetch_start_def isValidUrl_iff)
  then show ?thesis
    by (simp add: handleFetch_def)
qed

lemma bad_url_invalid: "URL_new ref_platform bad_url = None"
  by code_simp

theorem handleFetch_invalid_url_noop_witness:
  "URL_new ref_platform (url mistyped_state) = None
   \<and> handleFetch ref_platform (Resolved ok_response) 1000 ''10:15:00'' mistyped_state
       = mistyped_state
   \<and> run ref_platform [Edit bad_url, Submit] initial_sys
       = Some \<lparr>app = mistyped_state, in_flight = [], created = []\<rparr>
   \<and> url initial_state = []
   \<and> run ref_platform [Submit] initial_sys = Some initial_sys"
proof -
  have u: "url mistyped_state = bad_url" "url initial_state = []"
    by (simp_all add: mistyped_state_def initial_state_def)
  have a: "url mistyped_state = [] \<or> URL_new ref_platform (url mistyped_state) = None"
    using bad_url_invalid u by simp
  have b: "url initial_state = [] \<or> URL_new ref_platform (url initial_state) = None"
    using u by simp
  have d: "\<not> submit_disabled mistyped_state" "\<not> submit_disabled initial_state"
    by (simp_all add: submit_disabled_def mistyped_state_def initial_state_def)
  show ?thesis
    using handleFetch_invalid_url_noop [OF a, of "Resolved ok_response" 1000 "''10:15:00''" "[]" "[]"]
      handleFetch_invalid_url_noop [OF b, of "Resolved ok_response" 1000 "''10:15:00''" "[]" "[]"]
      bad_url_invalid u d
    by (simp add: initial_sys_def mistyped_state_def)
qed

section \<open>Selecting a record\<close>

text \<open>
  C7. A click on the \<open>i\<close>-th record \<open>r\<close> of the history is always possible, and it sets the url,
  the response and \<open>currentRequestId\<close> to the url, the stored text and the id of \<open>r\<close>, and the
  status to the one of \<open>r\<close> (success to \<open>Success\<close>, error to \<open>Error\<close>). The history and the
  calls in flight are unchanged.
\<close>

theorem handleSelectRequest_projects:
  assumes "i < length (history (app \<sigma>))"
  shows "let r = history (app \<sigma>) ! i; s' = handleSelectRequest r (app \<sigma>) in
           dispatch P (Select i) \<sigma> = Some (\<sigma>\<lparr>app := s'\<rparr>)
           \<and> in_flight (\<sigma>\<lparr>app := s'\<rparr>) = in_flight \<sigma>
           \<and> url s' = req_url r
           \<and> response s' = req_response r
           \<and> status s' = (case req_status r of ReqSuccess \<Rightarrow> Success | ReqError \<Rightarrow> Error)
           \<and> currentRequestId s' = Some (req_id r)
           \<and> history s' = history (app \<sigma>)"
  using assms
  by (simp add: handleSelectRequest_def Let_def split: req_status.splits)

lemma busy_reachable: "run ref_platform busy_events initial_sys = Some busy_sys"
  by code_simp

theorem handleSelectRequest_projects_witness:
  "run ref_platform busy_events initial_sys = Some busy_sys
   \<and> 0 < length (history (app busy_sys))
   \<and> dispatch ref_platform (Select 0) busy_sys
       = Some \<lparr>app = \<lparr>url = ok_url, response = ''Error: timeout'', status = Error,
                       history = [timeout_record], currentRequestId = Some 1000\<rparr>,
               in_flight = [\<lparr>c_url = other_url, c_history = [timeout_record]\<rparr>],
               created = [timeout_record]\<rparr>"
proof -
  have l: "0 < length (history (app busy_sys))"
    by (simp add: busy_sys_def)
  show ?thesis
    using busy_reachable l handleSelectRequest_projects [OF l, of ref_platform, unfolded Let_def, THEN conjunct1]
    by (simp add: busy_sys_def timeout_record_def handleSelectRequest_def)
qed

section \<open>Display formatting\<close>

text \<open>
  What \<open>formatResponse\<close> does, case by case. For the statuses \<open>Idle\<close> and \<open>Loading\<close>, and
  for a text that \<open>JSON.parse\<close> refuses, it returns the text, so applying it again changes
  nothing. For a text that parses it returns what \<open>JSON.stringify\<close> prints; what a second
  application does to that is decided by \<open>JSON.parse\<close> and \<open>JSON.stringify\<close> alone, with
  their reading and printing of floating-point numbers, and is not decided here.
\<close>

lemma formatResponse_passthrough:
  "st = Idle \<or> st = Loading \<Longrightarrow> formatResponse P r st = r"
  by (auto simp: formatResponse_def)

lemma formatResponse_unparsed:
  "JSON_parse P r = Inl msg \<Longrightarrow> formatResponse P r st = r"
  by (simp add: formatResponse_def)

lemma formatResponse_parsed:
  "st = Success \<or> st = Error \<Longrightarrow> JSON_parse P r = Inr v
     \<Longrightarrow> formatResponse P r st = JSON_stringify P v"
  by (auto simp: formatResponse_def)

section \<open>The history over a run\<close>

lemma sorted_wrt_subseq:
  "subseq xs ys \<Longrightarrow> sorted_wrt R ys \<Longrightarrow> sorted_wrt R xs"
proof (induction rule: list_emb.induct)
  case (list_emb_Cons xs ys y)
  then show ?case by simp
next
  case (list_emb_Cons2 x y xs ys)
  then have "set xs \<subseteq> set ys"
    using list_emb_set by fastforce
  with list_emb_Cons2 show ?case by auto
qed simp

lemma dispatch_history_inv:
  assumes "dispatch P e \<sigma> = Some \<sigma>'" and "history_inv \<sigma>"
  shows "history_inv \<sigma>'"
proof (cases e)
  case (Edit v)
  with assms show ?thesis
    by (auto simp: history_inv_def split: if_splits)
next
  case Submit
  with assms show ?thesis
    by (auto simp: history_inv_def handleFetch_start_def split: if_splits)
next
  case (Settle i outcome now ts)
  let ?q = "in_flight \<sigma>"
  let ?s' = "handleFetch_resume P (?q ! i) outcome now ts (app \<sigma>)"
  from assms Settle have i: "i < length ?q"
    and \<sigma>': "\<sigma>' = \<lparr>app = ?s', in_flight = take i ?q @ drop (Suc i) ?q,
                  created = created \<sigma> @ [last (history ?s')]\<rparr>"
    by (auto simp: Let_def split: if_splits)
  from assms(2) have q: "\<forall>c\<in>set ?q. subseq (c_history c) (created \<sigma>)"
    by (simp add: history_inv_def list_all_iff)
  from i q have c: "subseq (c_history (?q ! i)) (created \<sigma>)"
    by simp
  have h: "history ?s' = c_history (?q ! i) @ [last (history ?s')]"
    by (simp add: history_resume)
  have "subseq (history ?s') (created \<sigma> @ [last (history ?s')])"
    using c by (subst h) simp
  moreover have "\<forall>c\<in>set (take i ?q @ drop (Suc i) ?q).
      subseq (c_history c) (created \<sigma> @ [last (history ?s')])"
    using q by (auto dest!: in_set_takeD in_set_dropD intro: subseq_rev_drop_many)
  ultimately show ?thesis
    by (simp add: \<sigma>' history_inv_def list_all_iff)
next
  case (Select i)
  with assms show ?thesis
    by (auto simp: history_inv_def handleSelectRequest_def split: if_splits)
next
  case Clear
  with assms show ?thesis
    by (auto simp: history_inv_def handleClearHistory_def split: if_splits)
qed

lemma dispatch_created:
  assumes "dispatch P e \<sigma> = Some \<sigma>'"
  shows "\<exists>rs. created \<sigma>' = created \<sigma> @ rs \<and> map req_id rs = settle_time e"
proof (cases e)
  case (Settle i outcome now ts)
  with assms show ?thesis
    by (auto simp: Let_def history_resume split: if_splits)
next
  case Submit
  with assms show ?thesis
    by (auto split: if_splits prod.splits option.splits)
qed (use assms in \<open>auto split: if_splits\<close>)

lemma run_history_inv:
  "run P es \<sigma> = Some \<sigma>' \<Longrightarrow> history_inv \<sigma> \<Longrightarrow> history_inv \<sigma>'"
  by (induction es arbitrary: \<sigma>) (auto split: option.splits dest: dispatch_history_inv)

lemma run_created:
  "run P es \<sigma> = Some \<sigma>' \<Longrightarrow>
     \<exists>rs. created \<sigma>' = created \<sigma> @ rs \<and> map req_id rs = settle_times es"
proof (induction es arbitrary: \<sigma>)
  case Nil
  then show ?case by (simp add: settle_times_def)
next
  case (Cons e es)
  then obtain \<sigma>1 where d: "dispatch P e \<sigma> = Some \<sigma>1" and r: "run P es \<sigma>1 = Some \<sigma>'"
    by (auto split: option.splits)
  from dispatch_created [OF d] obtain rs where
    rs: "created \<sigma>1 = created \<sigma> @ rs" "map req_id rs = settle_time e"
    by blast
  from Cons.IH [OF r] obtain rs' where
    rs': "created \<sigma>' = created \<sigma>1 @ rs'" "map req_id rs' = settle_times es"
    by blast
  from rs rs' have "created \<sigma>' = created \<sigma> @ (rs @ rs')
      \<and> map req_id (rs @ rs') = settle_times (e # es)"
    by (simp add: settle_times_def)
  then show ?case by blast
qed

lemma initial_history_inv: "history_inv initial_sys"
  by (simp add: history_inv_def initial_sys_def initial_state_def)

text \<open>
  What holds of the ids: in a run from the initial state in which the readings of
  \<open>Date.now()\<close>, one at each settled request, are strictly increasing, the ids of the
  history are strictly increasing, hence unique.
\<close>

lemma ids_increasing_with_clock:
  assumes "run P es initial_sys = Some \<sigma>"
    and "sorted_wrt (<) (settle_times es)"
  shows "sorted_wrt (<) (history_ids \<sigma>) \<and> distinct (history_ids \<sigma>)"
proof -
  from run_created [OF assms(1)] have c: "map req_id (created \<sigma>) = settle_times es"
    by (auto simp: initial_sys_def)
  from run_history_inv [OF assms(1) initial_history_inv]
  have s: "subseq (history (app \<sigma>)) (created \<sigma>)"
    by (simp add: history_inv_def)
  then have "subseq (history_ids \<sigma>) (map req_id (created \<sigma>))"
    unfolding history_ids_def by (rule subseq_map)
  with assms(2) c have i: "sorted_wrt (<) (history_ids \<sigma>)"
    by (auto intro: sorted_wrt_subseq)
  then have d: "distinct (history_ids \<sigma>)"
    by (simp add: strict_sorted_iff)
  from i d show ?thesis by blast
qed

text \<open>
  C6. The claim does not hold of the program. The id of a record is the reading of
  \<open>Date.now()\<close> when it is built (App.tsx, lines 32 and 49), and nothing makes two readings
  differ. Two requests, one after the other, that settle at the same reading leave two
  records with the same id in the history: the ids are not unique and not strictly
  increasing, and \<open>HistoryPanel\<close>, which takes the id as the key of an item, marks both items
  as the active one.
\<close>

theorem same_tick_duplicate_ids:
  "map_option history_ids (run ref_platform same_tick_events initial_sys) = Some [1000, 1000]
   \<and> map_option (\<lambda>\<sigma>. distinct (history_ids \<sigma>)) (run ref_platform same_tick_events initial_sys)
       = Some False
   \<and> map_option (\<lambda>\<sigma>. map (isActive (currentRequestId (app \<sigma>))) (history (app \<sigma>)))
       (run ref_platform same_tick_events initial_sys)
     = Some [True, True]"
  by code_simp

section \<open>Calls in flight\<close>

text \<open>
  While the status is \<open>Loading\<close> the submit control and the input field are inert.
\<close>

lemma submit_inert_while_loading:
  "status (app \<sigma>) = Loading \<Longrightarrow> dispatch P Submit \<sigma> = None \<and> dispatch P (Edit v) \<sigma> = None"
  by (simp add: submit_disabled_def)

text \<open>
  C5. The claim does not hold of the program. \<open>handleSelectRequest\<close> and
  \<open>handleClearHistory\<close> set the status without regard to a call in flight. After a first
  request has failed and while a second is in flight, a click on the history item, or on
  Clear, leaves the control enabled with one call in flight; a submission then puts a
  second call in flight. When both settle, each writes the history it started from plus its
  own record, and the record of the call that settled first is lost: three records were
  built, at 1000, 2000 and 3000, and the history holds those of 1000 and 3000.
\<close>

theorem single_flight_broken:
  "map_option (\<lambda>\<sigma>. (submit_disabled (app \<sigma>), length (in_flight \<sigma>)))
     (run ref_platform (busy_events @ [Select 0]) initial_sys) = Some (False, 1)
   \<and> map_option (\<lambda>\<sigma>. (submit_disabled (app \<sigma>), length (in_flight \<sigma>)))
     (run ref_platform (busy_events @ [Clear]) initial_sys) = Some (False, 1)
   \<and> map_option (\<lambda>\<sigma>. length (in_flight \<sigma>)) (run ref_platform race_events initial_sys) = Some 2
   \<and> map_option (\<lambda>\<sigma>. (history_ids \<sigma>, map req_id (created \<sigma>)))
     (run ref_platform race_settled_events initial_sys) = Some ([1000, 3000], [1000, 2000, 3000])"
  by code_simp

end
